theory Spec2Isabelle
  imports Complex_Main "HOL-Library.Log_Nat" "HOL-Library.Multiset"
begin

section \<open>Python values used by the program\<close>

text \<open>
  Exceptions are values.  Text is modelled as ASCII: a \<open>char\<close> is one code point
  below 128, and Python's optional limit on the number of digits of an integer literal
  (\<open>sys.set_int_max_str_digits\<close>, an interpreter setting) is taken as switched off.
\<close>

datatype py_exn = ValueError | OverflowError | TypeError | AttributeError | IndexError | KeyError

text \<open>
  A Python \<open>float\<close> is an IEEE 754 binary64 number.  A finite one is carried by its exact
  rational value (the sign of zero is not observable in this program).
\<close>

datatype pyfloat = Finite rat | PosInf | NegInf | NaN

subsection \<open>Strings: \<open>str.strip\<close>, \<open>str.split\<close>, \<open>str.upper\<close>, \<open>in\<close>\<close>

definition is_space :: "char \<Rightarrow> bool" where
  "is_space c = (c \<in> set [CHR 0x09, CHR 0x0A, CHR 0x0B, CHR 0x0C, CHR 0x0D,
                            CHR 0x1C, CHR 0x1D, CHR 0x1E, CHR 0x1F, CHR 0x20])"

definition strip :: "string \<Rightarrow> string" where
  "strip s = rev (dropWhile is_space (rev (dropWhile is_space s)))"

fun split :: "char \<Rightarrow> string \<Rightarrow> string list" where
  "split sep [] = [[]]"
| "split sep (c # cs) =
     (if c = sep then [] # split sep cs
      else (case split sep cs of p # ps \<Rightarrow> (c # p) # ps | [] \<Rightarrow> [[c]]))"

definition upper_char :: "char \<Rightarrow> char" where
  "upper_char c =
     (if 97 \<le> (of_char c :: nat) \<and> (of_char c :: nat) \<le> 122
      then char_of ((of_char c :: nat) - 32) else c)"

definition lower_char :: "char \<Rightarrow> char" where
  "lower_char c =
     (if 65 \<le> (of_char c :: nat) \<and> (of_char c :: nat) \<le> 90
      then char_of ((of_char c :: nat) + 32) else c)"

definition upper :: "string \<Rightarrow> string" where
  "upper s = map upper_char s"

definition lower :: "string \<Rightarrow> string" where
  "lower s = map lower_char s"

text \<open>\<open>needle in hay\<close> for two strings: \<open>needle\<close> occurs as a contiguous piece.\<close>

fun contains :: "string \<Rightarrow> string \<Rightarrow> bool" where
  "contains needle [] = (needle = [])"
| "contains needle (c # cs) =
     (take (length needle) (c # cs) = needle \<or> contains needle cs)"

subsection \<open>\<open>int(str)\<close>\<close>

definition is_digit :: "char \<Rightarrow> bool" where
  "is_digit c = (48 \<le> (of_char c :: nat) \<and> (of_char c :: nat) \<le> 57)"

definition digit_val :: "char \<Rightarrow> nat" where
  "digit_val c = of_char c - 48"

definition dec_val :: "string \<Rightarrow> nat" where
  "dec_val ds = foldl (\<lambda>n c. 10 * n + digit_val c) 0 ds"

text \<open>
  Underscores in numeric literals: one may stand only between two digits.  The scan
  removes them, or fails, as CPython's does; \<open>prev\<close> is the character before.
\<close>

fun us_scan :: "char option \<Rightarrow> string \<Rightarrow> string option" where
  "us_scan prev [] = (if prev = Some CHR ''_'' then None else Some [])"
| "us_scan prev (c # cs) =
     (if c = CHR ''_'' then
        (case prev of
           Some p \<Rightarrow> if is_digit p then us_scan (Some c) cs else None
         | None \<Rightarrow> None)
      else if prev = Some CHR ''_'' \<and> \<not> is_digit c then None
      else map_option ((#) c) (us_scan (Some c) cs))"

definition split_sign :: "string \<Rightarrow> bool \<times> string" where
  "split_sign t =
     (case t of
        c # cs \<Rightarrow> if c = CHR ''-'' then (True, cs)
                  else if c = CHR ''+'' then (False, cs)
                  else (False, t)
      | [] \<Rightarrow> (False, t))"

definition py_int_of_str :: "string \<Rightarrow> py_exn + int" where
  "py_int_of_str s =
     (let (neg, body) = split_sign (strip s)
      in case us_scan None body of
           None \<Rightarrow> Inl ValueError
         | Some ds \<Rightarrow>
             if ds = [] \<or> \<not> list_all is_digit ds then Inl ValueError
             else Inr (if neg then - int (dec_val ds) else int (dec_val ds)))"

subsection \<open>Floats: rounding to binary64, \<open>float(str)\<close>, \<open>int(float)\<close>, \<open>*\<close>\<close>

text \<open>\<open>ilog2 a\<close> is the integer \<open>e\<close> with \<open>2^e \<le> a < 2^(e+1)\<close>, for \<open>a > 0\<close>.\<close>

definition ilog2 :: "rat \<Rightarrow> int" where
  "ilog2 a =
     (if 1 \<le> a then bitlen \<lfloor>a\<rfloor> - 1
      else (let k = bitlen \<lfloor>1 / a\<rfloor> - 1
            in if a * 2 powi k = 1 then - k else - (k + 1)))"

definition round_half_even :: "rat \<Rightarrow> int" where
  "round_half_even x =
     (let f = \<lfloor>x\<rfloor>; r = x - of_int f
      in if r < 1 / 2 then f
         else if 1 / 2 < r then f + 1
         else if even f then f else f + 1)"

text \<open>
  The nearest binary64 number, ties to even: 53 significant bits, the least exponent of
  a normal number is \<open>-1022\<close>, and a result of \<open>2^1024\<close> or more is an infinity.
\<close>

definition round_double :: "rat \<Rightarrow> pyfloat" where
  "round_double x =
     (if x = 0 then Finite 0
      else (let a = \<bar>x\<bar>;
                e = ilog2 a;
                q = max e (- 1022) - 52;
                m = round_half_even (a / 2 powi q);
                r = of_int m * 2 powi q
            in if 2 powi 1024 \<le> r then (if 0 < x then PosInf else NegInf)
               else Finite (if 0 < x then r else - r)))"

text \<open>
  The decimal literal of \<open>float(str)\<close>, underscores already removed:
  digits, an optional point and digits, an optional exponent.  The result is the
  digits read as one number and the power of ten to scale it by.
\<close>

definition float_literal :: "string \<Rightarrow> (nat \<times> int) option" where
  "float_literal p =
     (let ip = takeWhile is_digit p;
          r1 = dropWhile is_digit p;
          (fp, r2) = (case r1 of
                        c # r \<Rightarrow> if c = CHR ''.''
                                 then (takeWhile is_digit r, dropWhile is_digit r)
                                 else ([], r1)
                      | [] \<Rightarrow> ([], r1))
      in if ip = [] \<and> fp = [] then None
         else (case r2 of
                 [] \<Rightarrow> Some (dec_val (ip @ fp), - int (length fp))
               | c # r \<Rightarrow>
                   if c = CHR ''e'' \<or> c = CHR ''E'' then
                     (let (eneg, ds) = split_sign r
                      in if ds \<noteq> [] \<and> list_all is_digit ds
                         then Some (dec_val (ip @ fp),
                                    (if eneg then - int (dec_val ds) else int (dec_val ds))
                                      - int (length fp))
                         else None)
                   else None))"

definition py_float_of_str :: "string \<Rightarrow> py_exn + pyfloat" where
  "py_float_of_str s =
     (let (neg, body) = split_sign (strip s)
      in if lower body = ''inf'' \<or> lower body = ''infinity''
         then Inr (if neg then NegInf else PosInf)
         else if lower body = ''nan'' then Inr NaN
         else (case us_scan None body of
                 None \<Rightarrow> Inl ValueError
               | Some plain \<Rightarrow>
                   (case float_literal plain of
                      None \<Rightarrow> Inl ValueError
                    | Some (m, e) \<Rightarrow>
                        Inr (round_double
                               ((if neg then - 1 else 1) * of_nat m * 10 powi e)))))"

text \<open>\<open>int(x)\<close> of a float truncates towards zero; it raises on an infinity or a NaN.\<close>

definition trunc :: "rat \<Rightarrow> int" where
  "trunc r = (if 0 \<le> r then \<lfloor>r\<rfloor> else \<lceil>r\<rceil>)"

fun py_int_of_float :: "pyfloat \<Rightarrow> py_exn + int" where
  "py_int_of_float (Finite r) = Inr (trunc r)"
| "py_int_of_float PosInf = Inl OverflowError"
| "py_int_of_float NegInf = Inl OverflowError"
| "py_int_of_float NaN = Inl ValueError"

text \<open>\<open>float(n)\<close> of an integer rounds; it raises where the result would be infinite.\<close>

definition py_float_of_int :: "int \<Rightarrow> py_exn + pyfloat" where
  "py_float_of_int n =
     (case round_double (of_int n) of
        Finite r \<Rightarrow> Inr (Finite r)
      | _ \<Rightarrow> Inl OverflowError)"

fun float_mul :: "pyfloat \<Rightarrow> pyfloat \<Rightarrow> pyfloat" where
  "float_mul (Finite a) (Finite b) = round_double (a * b)"
| "float_mul NaN _ = NaN"
| "float_mul _ NaN = NaN"
| "float_mul (Finite a) PosInf = (if a = 0 then NaN else if 0 < a then PosInf else NegInf)"
| "float_mul (Finite a) NegInf = (if a = 0 then NaN else if 0 < a then NegInf else PosInf)"
| "float_mul PosInf (Finite b) = (if b = 0 then NaN else if 0 < b then PosInf else NegInf)"
| "float_mul NegInf (Finite b) = (if b = 0 then NaN else if 0 < b then NegInf else PosInf)"
| "float_mul PosInf PosInf = PosInf"
| "float_mul NegInf NegInf = PosInf"
| "float_mul PosInf NegInf = NegInf"
| "float_mul NegInf PosInf = NegInf"

text \<open>\<open>x * n\<close> for a float and an integer: the integer is converted first.\<close>

definition float_mul_int :: "pyfloat \<Rightarrow> int \<Rightarrow> py_exn + pyfloat" where
  "float_mul_int x n =
     (case py_float_of_int n of
        Inl e \<Rightarrow> Inl e
      | Inr y \<Rightarrow> Inr (float_mul x y))"

section \<open>Unit parsers (\<open>utils/helpers.py\<close>)\<close>

text \<open>
  A result is \<open>Inr\<close> of what the function returns (\<open>None\<close> is "invalid"), or \<open>Inl\<close>
  of an exception that leaves the function.  \<open>except ValueError\<close> catches that one only.
\<close>

fun except_ValueError :: "py_exn + int \<Rightarrow> py_exn + int option" where
  "except_ValueError (Inr n) = Inr (Some n)"
| "except_ValueError (Inl e) = (if e = ValueError then Inr None else Inl e)"

definition int_of_float_str :: "string \<Rightarrow> py_exn + int" where
  "int_of_float_str s =
     (case py_float_of_str s of
        Inl e \<Rightarrow> Inl e
      | Inr x \<Rightarrow> py_int_of_float x)"

fun int_of_parts :: "string list \<Rightarrow> py_exn + int" where
  "int_of_parts [p0, p1] =
     (case py_int_of_str p0 of
        Inl e \<Rightarrow> Inl e
      | Inr minutes \<Rightarrow>
          (case py_int_of_str p1 of
             Inl e \<Rightarrow> Inl e
           | Inr seconds \<Rightarrow> Inr (minutes * 60 + seconds)))"
| "int_of_parts [p0, p1, p2] =
     (case py_int_of_str p0 of
        Inl e \<Rightarrow> Inl e
      | Inr hours \<Rightarrow>
          (case py_int_of_str p1 of
             Inl e \<Rightarrow> Inl e
           | Inr minutes \<Rightarrow>
               (case py_int_of_str p2 of
                  Inl e \<Rightarrow> Inl e
                | Inr seconds \<Rightarrow> Inr (hours * 3600 + minutes * 60 + seconds))))"
| "int_of_parts _ = Inl ValueError"

definition parse_duration_input :: "string \<Rightarrow> py_exn + int option" where
  "parse_duration_input duration_str =
     (if duration_str = [] \<or> strip duration_str = [] then Inr None
      else (let s = strip duration_str
            in if CHR '':'' \<notin> set s then except_ValueError (int_of_float_str s)
               else (let parts = split CHR '':'' s
                     in if length parts = 2 \<or> length parts = 3
                        then except_ValueError (int_of_parts parts)
                        else Inr None)))"

definition multipliers :: "(string \<times> int) list" where
  "multipliers = [(''B'', 1), (''KB'', 1024), (''MB'', 1024 * 1024),
                  (''GB'', 1024 * 1024 * 1024)]"

definition parse_filesize_input :: "string \<Rightarrow> string \<Rightarrow> py_exn + int option" where
  "parse_filesize_input size_str unit =
     (if size_str = [] \<or> strip size_str = [] then Inr None
      else (case py_float_of_str (strip size_str) of
              Inl e \<Rightarrow> (if e = ValueError then Inr None else Inl e)
            | Inr size_value \<Rightarrow>
                (let multiplier = (case map_of multipliers unit of
                                     Some m \<Rightarrow> m | None \<Rightarrow> 1)
                 in case float_mul_int size_value multiplier of
                      Inl e \<Rightarrow> Inl e
                    | Inr p \<Rightarrow> map_sum id Some (py_int_of_float p))))"

section \<open>Scene query builder (\<open>MainWindow.on_search\<close>, \<open>SearchScenesWorker.run\<close>)\<close>

text \<open>
  A step of \<open>on_search\<close> returns a value, shows a warning box and returns early
  (the box's title is kept), or raises.
\<close>

datatype 'a step = Return 'a | Warning string | Raise py_exn

text \<open>The dictionary that maps the operator combo box's index to a server modifier.\<close>

definition operator_map :: "(int \<times> string) list" where
  "operator_map =
     [(0, ''EQUALS''), (1, ''NOT_EQUALS''), (2, ''GREATER_THAN''), (3, ''GREATER_THAN''),
      (4, ''LESS_THAN''), (5, ''LESS_THAN''), (6, ''BETWEEN'')]"

text \<open>The labels of the combo box, by index (the items added to both operator boxes).\<close>

definition operator_items :: "string list" where
  "operator_items =
     [''= (equals)'', ''!= (not equals)'', ''> (greater than)'',
      ''>= (greater than or equal)'', ''< (less than)'', ''<= (less than or equal)'',
      ''between'']"

text \<open>
  The duration part of \<open>on_search\<close> with the filter enabled: the operator index and the
  two text fields give \<open>(duration_value1, duration_value2, duration_operator)\<close>.
\<close>

definition parse_duration_field ::
  "string \<Rightarrow> (int \<Rightarrow> 'a step) \<Rightarrow> 'a step" where
  "parse_duration_field txt k =
     (let value_input = strip txt
      in if value_input = [] then Warning ''Missing value''
         else (case parse_duration_input value_input of
                 Inl e \<Rightarrow> Raise e
               | Inr None \<Rightarrow> Warning ''Invalid duration''
               | Inr (Some v) \<Rightarrow> k v))"

definition duration_criterion ::
  "int \<Rightarrow> string \<Rightarrow> string \<Rightarrow> (int \<times> int option \<times> string) step" where
  "duration_criterion operator_index value1_text value2_text =
     (case map_of operator_map operator_index of
        None \<Rightarrow> Raise KeyError
      | Some duration_operator \<Rightarrow>
          parse_duration_field value1_text (\<lambda>duration_value1.
            if duration_operator = ''BETWEEN''
            then parse_duration_field value2_text (\<lambda>duration_value2.
                   Return (duration_value1, Some duration_value2, duration_operator))
            else Return (duration_value1, None, duration_operator)))"

text \<open>The entry \<open>scene_filter["duration"]\<close> that the search worker sends.\<close>

record duration_filter =
  df_value :: int
  df_value2 :: "int option"
  df_modifier :: string

definition scene_filter_duration ::
  "int option \<Rightarrow> int option \<Rightarrow> string \<Rightarrow> duration_filter option" where
  "scene_filter_duration duration_value1 duration_value2 duration_operator =
     (case duration_value1 of
        None \<Rightarrow> None
      | Some v1 \<Rightarrow>
          if duration_operator = ''BETWEEN'' \<and> duration_value2 \<noteq> None
          then Some \<lparr>df_value = v1, df_value2 = duration_value2, df_modifier = ''BETWEEN''\<rparr>
          else Some \<lparr>df_value = v1, df_value2 = None, df_modifier = duration_operator\<rparr>)"

text \<open>The modifier sent to the server for an enabled duration criterion, if one is sent.\<close>

definition duration_modifier_sent :: "int \<Rightarrow> string \<Rightarrow> string \<Rightarrow> string option" where
  "duration_modifier_sent operator_index value1_text value2_text =
     (case duration_criterion operator_index value1_text value2_text of
        Return (v1, v2, oper) \<Rightarrow> map_option df_modifier (scene_filter_duration (Some v1) v2 oper)
      | _ \<Rightarrow> None)"

section \<open>Scenes\<close>

text \<open>
  A scene is the dictionary of one \<open>findScenes\<close> result.  A tag, performer or studio
  reference is \<open>{id, name}\<close>.  The numeric members of a file entry are kept as the JSON
  values the code inspects; \<open>JOther\<close> is a list or an object.  \<open>None\<close> is an absent or
  null member.  The members \<open>_filesize\<close>, \<open>_duration\<close>, \<open>_path\<close>, \<open>_width\<close>,
  \<open>_height\<close> and \<open>_resolution\<close> that the search worker adds are the \<open>meta_\<close> fields.
\<close>

datatype jval = JNull | JBool bool | JInt int | JFloat pyfloat | JStr string | JOther

record ref =
  ref_id :: string
  ref_name :: string

record file_entry =
  f_size :: jval
  f_duration :: jval
  f_path :: "string option"
  f_width :: jval
  f_height :: jval

record scene =
  scene_id :: string
  title :: "string option"
  date :: "string option"
  tags :: "ref list"
  performers :: "ref list"
  studio :: "ref option"
  files :: "file_entry list"
  meta_filesize :: "int option"
  meta_duration :: "pyfloat option"
  meta_path :: "string option"
  meta_width :: "int option"
  meta_height :: "int option"
  meta_resolution :: "string option"

section \<open>Client-side file size filter (\<open>MainWindow.on_search\<close>, \<open>_on_scenes_found\<close>)\<close>

text \<open>The page size that \<open>on_search\<close> hands to the search worker.\<close>

definition search_per_page :: "bool \<Rightarrow> int \<Rightarrow> int" where
  "search_per_page filesize_filter_checked per_page_spin =
     (if filesize_filter_checked then 10000 else per_page_spin)"

text \<open>
  \<open>size_ok\<close>, the predicate of the client-side filter, with the variables it closes
  over as arguments.  A chained comparison stops at its first false link, so the second
  bound of \<open>BETWEEN\<close> is looked at only when the first link holds.
\<close>

definition size_ok :: "string \<Rightarrow> int \<Rightarrow> int option \<Rightarrow> scene \<Rightarrow> py_exn + bool" where
  "size_ok filesize_operator filesize_value1 filesize_value2 s =
     (case meta_filesize s of
        None \<Rightarrow> Inr False
      | Some fs \<Rightarrow>
          if filesize_operator = ''EQUALS'' then Inr (fs = filesize_value1)
          else if filesize_operator = ''NOT_EQUALS'' then Inr (fs \<noteq> filesize_value1)
          else if filesize_operator = ''GREATER_THAN'' then Inr (filesize_value1 < fs)
          else if filesize_operator = ''LESS_THAN'' then Inr (fs < filesize_value1)
          else if filesize_operator = ''BETWEEN'' then
            (if filesize_value1 \<le> fs
             then (case filesize_value2 of
                     None \<Rightarrow> Inl TypeError
                   | Some v2 \<Rightarrow> Inr (fs \<le> v2))
             else Inr False)
          else Inr True)"

fun filter_size_ok ::
  "string \<Rightarrow> int \<Rightarrow> int option \<Rightarrow> scene list \<Rightarrow> py_exn + scene list" where
  "filter_size_ok oper v1 v2 [] = Inr []"
| "filter_size_ok oper v1 v2 (s # ss) =
     (case size_ok oper v1 v2 s of
        Inl e \<Rightarrow> Inl e
      | Inr keep \<Rightarrow>
          (case filter_size_ok oper v1 v2 ss of
             Inl e \<Rightarrow> Inl e
           | Inr rest \<Rightarrow> Inr (if keep then s # rest else rest)))"

definition parse_filesize_field ::
  "string \<Rightarrow> string \<Rightarrow> (int \<Rightarrow> 'a step) \<Rightarrow> 'a step" where
  "parse_filesize_field txt unit k =
     (let value_input = strip txt
      in if value_input = [] then Warning ''Missing value''
         else (case parse_filesize_input value_input unit of
                 Inl e \<Rightarrow> Raise e
               | Inr None \<Rightarrow> Warning ''Invalid file size''
               | Inr (Some v) \<Rightarrow> k v))"

text \<open>
  The filtering part of \<open>_on_scenes_found\<close> with the file size filter enabled: the
  operator index, the two magnitudes and their units, and the fetched scenes.
\<close>

definition filesize_filter ::
  "int \<Rightarrow> string \<Rightarrow> string \<Rightarrow> string \<Rightarrow> string \<Rightarrow> scene list \<Rightarrow> scene list step" where
  "filesize_filter operator_index value1_text unit1 value2_text unit2 scenes =
     (case map_of operator_map operator_index of
        None \<Rightarrow> Raise KeyError
      | Some filesize_operator \<Rightarrow>
          parse_filesize_field value1_text unit1 (\<lambda>filesize_value1.
            let run = (\<lambda>filesize_value2.
                  case filter_size_ok filesize_operator filesize_value1 filesize_value2 scenes of
                    Inl e \<Rightarrow> Raise e
                  | Inr filtered \<Rightarrow> Return filtered)
            in if filesize_operator = ''BETWEEN''
               then parse_filesize_field value2_text unit2 (\<lambda>v2. run (Some v2))
               else run None))"

section \<open>Scene record normalizer (\<open>SearchScenesWorker.run\<close>)\<close>








text \<open>
  \<open>max(xs) if xs else None\<close>.  Python's \<open>max\<close> keeps its first item and replaces it by
  each later item that compares greater.
\<close>

fun float_gt :: "pyfloat \<Rightarrow> pyfloat \<Rightarrow> bool" where
  "float_gt (Finite a) (Finite b) = (b < a)"
| "float_gt NaN _ = False"
| "float_gt _ NaN = False"
| "float_gt PosInf PosInf = False"
| "float_gt PosInf _ = True"
| "float_gt _ PosInf = False"
| "float_gt NegInf _ = False"
| "float_gt _ NegInf = True"







section \<open>Bulk mutation workers (\<open>workers/*.py\<close>)\<close>

text \<open>
  A member of a JSON object is absent, null, or present with a value.  The response of
  \<open>GraphQLClient.call\<close> to a \<open>sceneUpdate\<close> mutation is an object with the members
  \<open>data\<close> and \<open>errors\<close>; \<open>r_dumps\<close> is the text \<open>json.dumps\<close> gives for it, and
  \<open>e_str\<close> the text \<open>str\<close> gives for an error entry.
\<close>

datatype 'a member = Absent | Null | Present 'a

record error_entry =
  e_message :: "string member"
  e_str :: string

record response =
  r_data :: "string member member member"
  r_errors :: "error_entry list member"
  r_dumps :: string

text \<open>
  In \<open>r_data\<close> the outer member is \<open>data\<close>, the next is \<open>sceneUpdate\<close> inside it, and
  the innermost is the \<open>id\<close> of the updated scene.
\<close>

datatype mutation =
    Tag_ids "string list"
  | Title string
  | Performer_ids "string set"
  | Studio_id string

record request =
  input_id :: string
  input_change :: mutation

text \<open>A call of the client returns a response or raises; the server may keep state.\<close>

datatype 'r call_result = Raised | Returned 'r

type_synonym ('c, 'r) client = "'c \<Rightarrow> request \<Rightarrow> 'r call_result \<times> 'c"

datatype outcome = Updated | Already | Skipped_deleted | Failed

record summary =
  updated :: nat
  already :: nat
  skipped_deleted :: nat
  failed :: nat

definition tally :: "outcome \<Rightarrow> summary \<Rightarrow> summary" where
  "tally oc sm =
     (case oc of
        Updated \<Rightarrow> sm\<lparr>updated := updated sm + 1\<rparr>
      | Already \<Rightarrow> sm\<lparr>already := already sm + 1\<rparr>
      | Skipped_deleted \<Rightarrow> sm\<lparr>skipped_deleted := skipped_deleted sm + 1\<rparr>
      | Failed \<Rightarrow> sm\<lparr>failed := failed sm + 1\<rparr>)"

definition no_counts :: summary where
  "no_counts = \<lparr>updated = 0, already = 0, skipped_deleted = 0, failed = 0\<rparr>"

text \<open>
  \<open>resp["data"].get("sceneUpdate", {}).get("id") == scene_id\<close> (\<open>sid\<close> below), guarded by
  \<open>"data" in resp\<close>: \<open>.get\<close> on a null raises \<open>AttributeError\<close>.
\<close>

definition update_confirmed :: "string \<Rightarrow> response \<Rightarrow> py_exn + bool" where
  "update_confirmed sid resp =
     (case r_data resp of
        Absent \<Rightarrow> Inr False
      | Null \<Rightarrow> Inl AttributeError
      | Present Absent \<Rightarrow> Inr False
      | Present Null \<Rightarrow> Inl AttributeError
      | Present (Present (Present i)) \<Rightarrow> Inr (i = sid)
      | Present (Present _) \<Rightarrow> Inr False)"

text \<open>
  \<open>[e.get("message", str(e)) for e in resp["errors"]]\<close> joined by \<open>"; "\<close>: iterating
  a null raises, and so does joining a null message.
\<close>

fun err_msg :: "error_entry \<Rightarrow> string option" where
  "err_msg e =
     (case e_message e of
        Absent \<Rightarrow> Some (e_str e)
      | Null \<Rightarrow> None
      | Present m \<Rightarrow> Some m)"

fun join :: "string \<Rightarrow> string option list \<Rightarrow> py_exn + string" where
  "join sep [] = Inr []"
| "join sep [None] = Inl TypeError"
| "join sep [Some m] = Inr m"
| "join sep (None # ms) = Inl TypeError"
| "join sep (Some m # ms) =
     (case join sep ms of
        Inl e \<Rightarrow> Inl e
      | Inr rest \<Rightarrow> Inr (m @ sep @ rest))"

definition err_text :: "response \<Rightarrow> py_exn + string" where
  "err_text resp =
     (case r_errors resp of
        Null \<Rightarrow> Inl TypeError
      | Absent \<Rightarrow> Inr (r_dumps resp)
      | Present es \<Rightarrow>
          if es = [] then Inr (r_dumps resp) else join ''; '' (map err_msg es))"

text \<open>
  The body of the \<open>try\<close> after the call, the same in the tag, rename and performer
  workers; \<open>except Exception\<close> turns any exception into \<open>failed\<close>.
\<close>

definition classify :: "string \<Rightarrow> response \<Rightarrow> py_exn + outcome" where
  "classify sid resp =
     (case update_confirmed sid resp of
        Inl e \<Rightarrow> Inl e
      | Inr True \<Rightarrow> Inr Updated
      | Inr False \<Rightarrow>
          (case err_text resp of
             Inl e \<Rightarrow> Inl e
           | Inr t \<Rightarrow>
               if contains ''FOREIGN KEY'' (upper t) \<or> contains ''FOREIGN KEY'' t
               then Inr Skipped_deleted else Inr Failed))"

definition mutate ::
  "('c, response) client \<Rightarrow> request \<Rightarrow> 'c \<Rightarrow> outcome \<times> request list \<times> 'c" where
  "mutate call req c =
     (case call c req of
        (Raised, c') \<Rightarrow> (Failed, [req], c')
      | (Returned resp, c') \<Rightarrow>
          (case classify (input_id req) resp of
             Inl e \<Rightarrow> (Failed, [req], c')
           | Inr oc \<Rightarrow> (oc, [req], c')))"

text \<open>
  One pass of a worker's loop gives the counter it increments, the requests it sends,
  and the client's state after.  The loop runs the passes in order.
\<close>

fun bulk_loop ::
  "(scene \<Rightarrow> 'c \<Rightarrow> outcome \<times> request list \<times> 'c) \<Rightarrow> scene list \<Rightarrow>
   summary \<times> request list \<times> 'c \<Rightarrow> summary \<times> request list \<times> 'c" where
  "bulk_loop pass [] st = st"
| "bulk_loop pass (s # ss) (sm, sent, c) =
     (case pass s c of
        (oc, reqs, c') \<Rightarrow> bulk_loop pass ss (tally oc sm, sent @ reqs, c'))"

definition apply_tag_pass ::
  "('c, response) client \<Rightarrow> string \<Rightarrow> bool \<Rightarrow> scene \<Rightarrow> 'c \<Rightarrow>
   outcome \<times> request list \<times> 'c" where
  "apply_tag_pass call tag_id dry_run s c =
     (let current_tag_ids = map ref_id (tags s)
      in if tag_id \<in> set current_tag_ids then (Already, [], c)
         else (let new_tag_ids = current_tag_ids @ [tag_id]
               in if dry_run then (Updated, [], c)
                  else mutate call
                         \<lparr>input_id = scene_id s, input_change = Tag_ids new_tag_ids\<rparr> c))"

definition ApplyTagWorker_run ::
  "('c, response) client \<Rightarrow> scene list \<Rightarrow> string \<Rightarrow> bool \<Rightarrow> 'c \<Rightarrow>
   summary \<times> request list \<times> 'c" where
  "ApplyTagWorker_run call scenes tag_id dry_run c =
     bulk_loop (apply_tag_pass call tag_id dry_run) scenes (no_counts, [], c)"

definition rename_pass ::
  "('c, response) client \<Rightarrow> string \<Rightarrow> bool \<Rightarrow> scene \<Rightarrow> 'c \<Rightarrow>
   outcome \<times> request list \<times> 'c" where
  "rename_pass call new_title dry_run s c =
     (if dry_run then (Updated, [], c)
      else mutate call \<lparr>input_id = scene_id s, input_change = Title new_title\<rparr> c)"

definition RenameSceneWorker_run ::
  "('c, response) client \<Rightarrow> scene list \<Rightarrow> string \<Rightarrow> bool \<Rightarrow> 'c \<Rightarrow>
   summary \<times> request list \<times> 'c" where
  "RenameSceneWorker_run call scenes new_title dry_run c =
     bulk_loop (rename_pass call new_title dry_run) scenes (no_counts, [], c)"

text \<open>
  \<open>list(set(current + requested))\<close> has no order the language fixes, so the request
  carries the set.
\<close>

definition assign_performers_pass ::
  "('c, response) client \<Rightarrow> string list \<Rightarrow> bool \<Rightarrow> scene \<Rightarrow> 'c \<Rightarrow>
   outcome \<times> request list \<times> 'c" where
  "assign_performers_pass call performer_ids dry_run s c =
     (let current_performer_ids = map ref_id (performers s)
      in if list_all (\<lambda>pid. pid \<in> set current_performer_ids) performer_ids
         then (Already, [], c)
         else (let new_performer_ids = set (current_performer_ids @ performer_ids)
               in if dry_run then (Updated, [], c)
                  else mutate call
                         \<lparr>input_id = scene_id s,
                          input_change = Performer_ids new_performer_ids\<rparr> c))"

definition AssignPerformersWorker_run ::
  "('c, response) client \<Rightarrow> scene list \<Rightarrow> string list \<Rightarrow> bool \<Rightarrow> 'c \<Rightarrow>
   summary \<times> request list \<times> 'c" where
  "AssignPerformersWorker_run call scenes performer_ids dry_run c =
     bulk_loop (assign_performers_pass call performer_ids dry_run) scenes (no_counts, [], c)"

text \<open>
  The studio worker calls \<open>client.call_graphql\<close> and reads its result as the \<open>data\<close>
  object: \<open>None\<close> or an object.  The member is \<open>sceneUpdate\<close>, and inside it \<open>studio\<close>.
\<close>

datatype gql_result = GNone | GDict "unit member member"

definition studio_assigned :: "gql_result \<Rightarrow> py_exn + bool" where
  "studio_assigned result =
     (case result of
        GNone \<Rightarrow> Inr False
      | GDict Absent \<Rightarrow> Inr False
      | GDict Null \<Rightarrow> Inl AttributeError
      | GDict (Present Null) \<Rightarrow> Inl AttributeError
      | GDict (Present _) \<Rightarrow> Inr True)"

definition assign_studio_to_scene ::
  "('c, gql_result) client \<Rightarrow> request \<Rightarrow> 'c \<Rightarrow> bool \<times> request list \<times> 'c" where
  "assign_studio_to_scene call_graphql req c =
     (case call_graphql c req of
        (Raised, c') \<Rightarrow> (False, [req], c')
      | (Returned result, c') \<Rightarrow>
          (case studio_assigned result of
             Inl e \<Rightarrow> (False, [req], c')
           | Inr ok \<Rightarrow> (ok, [req], c')))"

definition assign_studio_pass ::
  "('c, gql_result) client \<Rightarrow> string \<Rightarrow> bool \<Rightarrow> scene \<Rightarrow> 'c \<Rightarrow>
   outcome \<times> request list \<times> 'c" where
  "assign_studio_pass call_graphql studio_id dry_run s c =
     (if scene_id s = [] then (Skipped_deleted, [], c)
      else if map_option ref_id (studio s) = Some studio_id then (Already, [], c)
      else if dry_run then (Updated, [], c)
      else (case assign_studio_to_scene call_graphql
                   \<lparr>input_id = scene_id s, input_change = Studio_id studio_id\<rparr> c of
              (success, reqs, c') \<Rightarrow> (if success then Updated else Failed, reqs, c')))"

definition AssignStudioWorker_run ::
  "('c, gql_result) client \<Rightarrow> scene list \<Rightarrow> string \<Rightarrow> bool \<Rightarrow> 'c \<Rightarrow>
   summary \<times> request list \<times> 'c" where
  "AssignStudioWorker_run call_graphql scenes studio_id dry_run c =
     bulk_loop (assign_studio_pass call_graphql studio_id dry_run) scenes (no_counts, [], c)"

text \<open>
  \<open>GraphQLClient\<close> (\<open>models/graphql_client.py\<close>) defines \<open>call\<close> and \<open>create_tag\<close>
  only, so on the client the main window passes in, looking up \<open>call_graphql\<close> raises.
\<close>

definition GraphQLClient_call_graphql :: "('c, gql_result) client" where
  "GraphQLClient_call_graphql c req = (Raised, c)"

section \<open>Selection and sort table (\<open>models/scene_table_model.py\<close>)\<close>

datatype sort_order = AscendingOrder | DescendingOrder

record table =
  scenes :: "scene list"
  checked :: "bool list"
  visible_columns :: "nat list"
  sort_column :: int
  sort_order :: sort_order

definition DEFAULT_VISIBLE :: "nat list" where
  "DEFAULT_VISIBLE = [0, 1, 2, 3, 4, 5, 6, 7, 8, 9, 10, 11]"

definition init :: "scene list \<Rightarrow> table" where
  "init ss = \<lparr>scenes = ss, checked = replicate (length ss) False,
              visible_columns = DEFAULT_VISIBLE, sort_column = - 1,
              sort_order = AscendingOrder\<rparr>"

definition set_visible_columns :: "nat list \<Rightarrow> table \<Rightarrow> table" where
  "set_visible_columns visible_indices t = t\<lparr>visible_columns := visible_indices\<rparr>"

text \<open>
  \<open>setData\<close>: the index is invalid (\<open>None\<close>) or a row and a column; \<open>check_role\<close> says
  the role is \<open>CheckStateRole\<close> and \<open>is_checked\<close> that the value is \<open>Checked\<close> or 2.
  A list read or write out of range raises before anything is changed.
\<close>

definition setData ::
  "(nat \<times> nat) option \<Rightarrow> bool \<Rightarrow> bool \<Rightarrow> table \<Rightarrow> py_exn + bool \<times> table" where
  "setData index is_checked check_role t =
     (case index of
        None \<Rightarrow> Inr (False, t)
      | Some (row, column) \<Rightarrow>
          if length (visible_columns t) \<le> column then Inl IndexError
          else if visible_columns t ! column = 0 \<and> check_role then
            (if length (checked t) \<le> row then Inl IndexError
             else Inr (True, t\<lparr>checked := (checked t)[row := is_checked]\<rparr>))
          else Inr (False, t))"

definition setScenes :: "scene list \<Rightarrow> table \<Rightarrow> table" where
  "setScenes ss t = t\<lparr>scenes := ss, checked := replicate (length ss) False\<rparr>"

definition get_selected_scenes :: "table \<Rightarrow> scene list" where
  "get_selected_scenes t = map fst (filter snd (zip (scenes t) (checked t)))"

definition select_all :: "bool \<Rightarrow> table \<Rightarrow> table" where
  "select_all val t =
     (if checked t = [] then t else t\<lparr>checked := map (\<lambda>_. val) (checked t)\<rparr>)"

text \<open>
  The loop of \<open>select_by_ids\<close> writes \<open>_checked[i]\<close> for each scene in turn; a write
  past the end of \<open>_checked\<close> raises with the earlier writes done.
\<close>

fun select_loop :: "string set \<Rightarrow> scene list \<Rightarrow> bool list \<Rightarrow> bool list \<times> py_exn option" where
  "select_loop id_set [] cs = (cs, None)"
| "select_loop id_set (s # ss) [] = ([], Some IndexError)"
| "select_loop id_set (s # ss) (c # cs) =
     (case select_loop id_set ss cs of
        (cs', e) \<Rightarrow> ((scene_id s \<in> id_set) # cs', e))"

definition select_by_ids :: "string set \<Rightarrow> table \<Rightarrow> table \<times> py_exn option" where
  "select_by_ids id_set t =
     (if checked t = [] then (t, None)
      else (case select_loop id_set (scenes t) (checked t) of
              (cs, e) \<Rightarrow> (t\<lparr>checked := cs\<rparr>, e)))"

subsection \<open>Sorting\<close>

text \<open>
  A sort key is an integer, a string or a float; all keys of one column are of one
  kind.  Strings compare by code point.
\<close>

datatype sort_key = K_int int | K_str string | K_float pyfloat

fun str_lt :: "string \<Rightarrow> string \<Rightarrow> bool" where
  "str_lt [] [] = False"
| "str_lt [] (y # ys) = True"
| "str_lt (x # xs) [] = False"
| "str_lt (x # xs) (y # ys) =
     ((of_char x :: nat) < of_char y \<or> (x = y \<and> str_lt xs ys))"

fun key_lt :: "sort_key \<Rightarrow> sort_key \<Rightarrow> bool" where
  "key_lt (K_int a) (K_int b) = (a < b)"
| "key_lt (K_str a) (K_str b) = str_lt a b"
| "key_lt (K_float a) (K_float b) = float_gt b a"
| "key_lt (K_int a) (K_float b) = float_gt b (Finite (of_int a))"
| "key_lt (K_float a) (K_int b) = float_gt (Finite (of_int b)) a"
| "key_lt _ _ = False"

text \<open>A stable sort, which is what \<open>list.sort\<close> and \<open>sorted\<close> are.\<close>

fun insort_by :: "('a \<Rightarrow> 'a \<Rightarrow> bool) \<Rightarrow> 'a \<Rightarrow> 'a list \<Rightarrow> 'a list" where
  "insort_by lt x [] = [x]"
| "insort_by lt x (y # ys) = (if lt y x then y # insort_by lt x ys else x # y # ys)"

definition stable_sort :: "('a \<Rightarrow> 'a \<Rightarrow> bool) \<Rightarrow> 'a list \<Rightarrow> 'a list" where
  "stable_sort lt xs = foldr (insort_by lt) xs []"

text \<open>
  \<open>xs.sort(key=key, reverse=reverse)\<close>: with \<open>reverse\<close> the list is reversed, sorted
  and reversed again, so that equal items keep their order.
\<close>

definition py_sort :: "('a \<Rightarrow> sort_key) \<Rightarrow> bool \<Rightarrow> 'a list \<Rightarrow> 'a list" where
  "py_sort key reverse xs =
     (let lt = (\<lambda>a b. key_lt (key a) (key b))
      in if reverse then rev (stable_sort lt (rev xs)) else stable_sort lt xs)"

definition names_key :: "ref list \<Rightarrow> string" where
  "names_key rs =
     (let names = filter (\<lambda>n. n \<noteq> []) (map ref_name rs)
      in if names = [] then []
         else (case join '', '' (map Some (stable_sort str_lt names)) of
                 Inr j \<Rightarrow> lower j
               | Inl e \<Rightarrow> []))"

definition or_empty :: "string option \<Rightarrow> string" where
  "or_empty v = (case v of None \<Rightarrow> [] | Some x \<Rightarrow> x)"

definition or_0 :: "int option \<Rightarrow> int" where
  "or_0 v = (case v of None \<Rightarrow> 0 | Some x \<Rightarrow> x)"

text \<open>\<open>res.replace("p", "").replace("K", "000")\<close>\<close>

definition resolution_digits :: "string \<Rightarrow> string" where
  "resolution_digits res =
     concat (map (\<lambda>c. if c = CHR ''K'' then ''000'' else [c])
                 (filter (\<lambda>c. c \<noteq> CHR ''p'') res))"

definition sort_key :: "nat \<Rightarrow> scene \<Rightarrow> sort_key" where
  "sort_key actual_col s =
     (if actual_col = 1 then
        K_int (case py_int_of_str (scene_id s) of Inr n \<Rightarrow> n | Inl e \<Rightarrow> 0)
      else if actual_col = 2 then K_str (lower (or_empty (title s)))
      else if actual_col = 3 then
        K_str (lower (case studio s of None \<Rightarrow> [] | Some st \<Rightarrow> ref_name st))
      else if actual_col = 4 then K_str (names_key (performers s))
      else if actual_col = 5 then K_str (names_key (tags s))
      else if actual_col = 6 then K_str (or_empty (date s))
      else if actual_col = 7 then K_str (lower (or_empty (meta_path s)))
      else if actual_col = 8 then
        K_float (case meta_duration s of
                   None \<Rightarrow> Finite 0
                 | Some d \<Rightarrow> if d = Finite 0 then Finite 0 else d)
      else if actual_col = 9 then K_int (or_0 (meta_width s) * or_0 (meta_height s))
      else if actual_col = 10 then
        K_int (case meta_resolution s of
                 None \<Rightarrow> 0
               | Some res \<Rightarrow>
                   if res = [] then 0
                   else (case py_int_of_str (resolution_digits res) of
                           Inr n \<Rightarrow> n | Inl e \<Rightarrow> 0))
      else if actual_col = 11 then K_int (or_0 (meta_filesize s))
      else K_str [])"

text \<open>\<open>zip(self._scenes, self._checked, range(len(self._scenes)))\<close>, counting from \<open>i\<close>.\<close>

fun zip_index :: "nat \<Rightarrow> 'a list \<Rightarrow> 'b list \<Rightarrow> ('a \<times> 'b \<times> nat) list" where
  "zip_index i (x # xs) (c # cs) = (x, c, i) # zip_index (Suc i) xs cs"
| "zip_index i _ _ = []"

definition sort_table :: "int \<Rightarrow> sort_order \<Rightarrow> table \<Rightarrow> table" where
  "sort_table column order t =
     (if column < 0 \<or> int (length (visible_columns t)) \<le> column then t
      else (let actual_col = visible_columns t ! nat column
            in if actual_col = 0 then t
               else (let combined = zip_index 0 (scenes t) (checked t);
                         reverse = (order = DescendingOrder);
                         ordered = py_sort (\<lambda>item. sort_key actual_col (fst item))
                                    reverse combined
                     in t\<lparr>scenes := map fst ordered,
                          checked := map (\<lambda>item. fst (snd item)) ordered,
                          sort_column := column,
                          sort_order := order\<rparr>)))"

text \<open>A sequence of sort requests, applied in order.\<close>

definition sorts :: "(int \<times> sort_order) list \<Rightarrow> table \<Rightarrow> table" where
  "sorts reqs t = fold (\<lambda>(column, order). sort_table column order) reqs t"

text \<open>The invariant of the table: one selection bit for each record.\<close>

definition aligned :: "table \<Rightarrow> bool" where
  "aligned t = (length (checked t) = length (scenes t))"

text \<open>The records with their selection bits, each as often as it occurs.\<close>

definition selection :: "table \<Rightarrow> (scene \<times> bool) multiset" where
  "selection t = mset (zip (scenes t) (checked t))"

section \<open>Notions used to state the properties\<close>

text \<open>The number of records a summary accounts for.\<close>

definition records_counted :: "summary \<Rightarrow> nat" where
  "records_counted sm = updated sm + already sm + skipped_deleted sm + failed sm"

text \<open>A scene with an id and nothing else, and a file entry with nothing in it.\<close>

definition bare_scene :: "string \<Rightarrow> scene" where
  "bare_scene sid =
     \<lparr>scene_id = sid, title = None, date = None, tags = [], performers = [],
      studio = None, files = [], meta_filesize = None, meta_duration = None,
      meta_path = None, meta_width = None, meta_height = None, meta_resolution = None\<rparr>"


text \<open>A server answering every request with the same response.\<close>

definition always :: "'r \<Rightarrow> (unit, 'r) client" where
  "always resp c req = (Returned resp, c)"







section \<open>Properties\<close>

subsection \<open>Duration criterion\<close>

lemma operator_map_entries:
  "map_of operator_map i = Some oper \<longleftrightarrow>
     i = 0 \<and> oper = ''EQUALS'' \<or> i = 1 \<and> oper = ''NOT_EQUALS'' \<or>
     i = 2 \<and> oper = ''GREATER_THAN'' \<or> i = 3 \<and> oper = ''GREATER_THAN'' \<or>
     i = 4 \<and> oper = ''LESS_THAN'' \<or> i = 5 \<and> oper = ''LESS_THAN'' \<or>
     i = 6 \<and> oper = ''BETWEEN''"
  by (auto simp: operator_map_def)

lemma scene_filter_duration_entry:
  "scene_filter_duration (Some v1) v2 oper =
     Some \<lparr>df_value = v1, df_value2 = (if oper = ''BETWEEN'' then v2 else None),
           df_modifier = oper\<rparr>"
  by (simp add: scene_filter_duration_def)

lemma duration_criterion_operator:
  assumes "duration_criterion i t1 t2 = Return (v1, v2, oper)"
  shows "map_of operator_map i = Some oper"
  using assms
  by (auto simp: duration_criterion_def parse_duration_field_def Let_def
      split: option.splits sum.splits if_splits)

lemma duration_criterion_single:
  assumes "strip t1 \<noteq> []" and "parse_duration_input (strip t1) = Inr (Some v1)"
    and "map_of operator_map i = Some oper" and "oper \<noteq> ''BETWEEN''"
  shows "duration_criterion i t1 t2 = Return (v1, None, oper)"
  using assms by (simp add: duration_criterion_def parse_duration_field_def Let_def)

lemma duration_criterion_between:
  assumes "strip t1 \<noteq> []" and "parse_duration_input (strip t1) = Inr (Some v1)"
    and "strip t2 \<noteq> []" and "parse_duration_input (strip t2) = Inr (Some v2)"
  shows "duration_criterion 6 t1 t2 = Return (v1, Some v2, ''BETWEEN'')"
  using assms
  by (simp add: duration_criterion_def parse_duration_field_def Let_def operator_map_def)

lemma duration_sent_of_criterion:
  "duration_criterion i t1 t2 = Return (v1, v2, oper) \<Longrightarrow>
   duration_modifier_sent i t1 t2 = Some oper"
  by (simp add: duration_modifier_sent_def scene_filter_duration_entry)

text \<open>
  C3. The operator map has exactly the seven entries of the source: greater-or-equal
  (index 3) goes to the strict \<open>GREATER_THAN\<close> and less-or-equal (index 5) to the strict
  \<open>LESS_THAN\<close>, while equals, not-equals, greater-than, less-than and between go to
  their own modifiers. For every active duration criterion whose text is a duration,
  the criterion is sent with that modifier and the parsed value (for between, with
  both values), and the worker puts operator and values into the request unchanged.
  Whenever a modifier is sent, it is the one the chosen label stands for in this table.
\<close>

theorem C3_duration_operator_mapping:
  "(map_of operator_map i = Some oper \<longleftrightarrow>
      i = 0 \<and> oper = ''EQUALS'' \<or> i = 1 \<and> oper = ''NOT_EQUALS'' \<or>
      i = 2 \<and> oper = ''GREATER_THAN'' \<or> i = 3 \<and> oper = ''GREATER_THAN'' \<or>
      i = 4 \<and> oper = ''LESS_THAN'' \<or> i = 5 \<and> oper = ''LESS_THAN'' \<or>
      i = 6 \<and> oper = ''BETWEEN'') \<and>
   operator_items =
     [''= (equals)'', ''!= (not equals)'', ''> (greater than)'',
      ''>= (greater than or equal)'', ''< (less than)'', ''<= (less than or equal)'',
      ''between''] \<and>
   scene_filter_duration None v2 oper = None \<and>
   scene_filter_duration (Some v1) v2 oper =
     Some \<lparr>df_value = v1, df_value2 = (if oper = ''BETWEEN'' then v2 else None),
           df_modifier = oper\<rparr> \<and>
   (strip t1 \<noteq> [] \<and> parse_duration_input (strip t1) = Inr (Some v1) \<longrightarrow>
      duration_criterion 0 t1 t2 = Return (v1, None, ''EQUALS'') \<and>
      duration_criterion 1 t1 t2 = Return (v1, None, ''NOT_EQUALS'') \<and>
      duration_criterion 2 t1 t2 = Return (v1, None, ''GREATER_THAN'') \<and>
      duration_criterion 3 t1 t2 = Return (v1, None, ''GREATER_THAN'') \<and>
      duration_criterion 4 t1 t2 = Return (v1, None, ''LESS_THAN'') \<and>
      duration_criterion 5 t1 t2 = Return (v1, None, ''LESS_THAN'') \<and>
      duration_modifier_sent 0 t1 t2 = Some ''EQUALS'' \<and>
      duration_modifier_sent 1 t1 t2 = Some ''NOT_EQUALS'' \<and>
      duration_modifier_sent 2 t1 t2 = Some ''GREATER_THAN'' \<and>
      duration_modifier_sent 3 t1 t2 = Some ''GREATER_THAN'' \<and>
      duration_modifier_sent 4 t1 t2 = Some ''LESS_THAN'' \<and>
      duration_modifier_sent 5 t1 t2 = Some ''LESS_THAN'' \<and>
      (strip t2 \<noteq> [] \<and> parse_duration_input (strip t2) = Inr (Some w) \<longrightarrow>
         duration_criterion 6 t1 t2 = Return (v1, Some w, ''BETWEEN'') \<and>
         duration_modifier_sent 6 t1 t2 = Some ''BETWEEN'')) \<and>
   (duration_modifier_sent i t1 t2 = Some m \<longrightarrow>
      (operator_items ! nat i = ''>= (greater than or equal)'' \<longrightarrow> m = ''GREATER_THAN'') \<and>
      (operator_items ! nat i = ''<= (less than or equal)'' \<longrightarrow> m = ''LESS_THAN'') \<and>
      (operator_items ! nat i = ''= (equals)'' \<longrightarrow> m = ''EQUALS'') \<and>
      (operator_items ! nat i = ''!= (not equals)'' \<longrightarrow> m = ''NOT_EQUALS'') \<and>
      (operator_items ! nat i = ''> (greater than)'' \<longrightarrow> m = ''GREATER_THAN'') \<and>
      (operator_items ! nat i = ''< (less than)'' \<longrightarrow> m = ''LESS_THAN'') \<and>
      (operator_items ! nat i = ''between'' \<longrightarrow> m = ''BETWEEN'') \<and>
      0 \<le> i \<and> i \<le> 6)"
proof -
  have single: "strip t1 \<noteq> [] \<and> parse_duration_input (strip t1) = Inr (Some v1) \<longrightarrow>
      duration_criterion 0 t1 t2 = Return (v1, None, ''EQUALS'') \<and>
      duration_criterion 1 t1 t2 = Return (v1, None, ''NOT_EQUALS'') \<and>
      duration_criterion 2 t1 t2 = Return (v1, None, ''GREATER_THAN'') \<and>
      duration_criterion 3 t1 t2 = Return (v1, None, ''GREATER_THAN'') \<and>
      duration_criterion 4 t1 t2 = Return (v1, None, ''LESS_THAN'') \<and>
      duration_criterion 5 t1 t2 = Return (v1, None, ''LESS_THAN'')"
    by (simp add: duration_criterion_single operator_map_entries)
  have between: "strip t1 \<noteq> [] \<and> parse_duration_input (strip t1) = Inr (Some v1) \<longrightarrow>
      strip t2 \<noteq> [] \<and> parse_duration_input (strip t2) = Inr (Some w) \<longrightarrow>
      duration_criterion 6 t1 t2 = Return (v1, Some w, ''BETWEEN'')"
    by (simp add: duration_criterion_between)
  have sent: "duration_modifier_sent i t1 t2 = Some m \<longrightarrow>
      (operator_items ! nat i = ''>= (greater than or equal)'' \<longrightarrow> m = ''GREATER_THAN'') \<and>
      (operator_items ! nat i = ''<= (less than or equal)'' \<longrightarrow> m = ''LESS_THAN'') \<and>
      (operator_items ! nat i = ''= (equals)'' \<longrightarrow> m = ''EQUALS'') \<and>
      (operator_items ! nat i = ''!= (not equals)'' \<longrightarrow> m = ''NOT_EQUALS'') \<and>
      (operator_items ! nat i = ''> (greater than)'' \<longrightarrow> m = ''GREATER_THAN'') \<and>
      (operator_items ! nat i = ''< (less than)'' \<longrightarrow> m = ''LESS_THAN'') \<and>
      (operator_items ! nat i = ''between'' \<longrightarrow> m = ''BETWEEN'') \<and>
      0 \<le> i \<and> i \<le> 6"
  proof
    assume a: "duration_modifier_sent i t1 t2 = Some m"
    obtain x1 x2 xo where r: "duration_criterion i t1 t2 = Return (x1, x2, xo)"
      using a by (auto simp: duration_modifier_sent_def split: step.splits)
    from duration_sent_of_criterion [OF r] a have "m = xo" by simp
    with duration_criterion_operator [OF r] have "map_of operator_map i = Some m" by simp
    then have "i = 0 \<and> m = ''EQUALS'' \<or> i = 1 \<and> m = ''NOT_EQUALS'' \<or>
             i = 2 \<and> m = ''GREATER_THAN'' \<or> i = 3 \<and> m = ''GREATER_THAN'' \<or>
             i = 4 \<and> m = ''LESS_THAN'' \<or> i = 5 \<and> m = ''LESS_THAN'' \<or>
             i = 6 \<and> m = ''BETWEEN''"
      by (simp only: operator_map_entries)
    then show "(operator_items ! nat i = ''>= (greater than or equal)'' \<longrightarrow> m = ''GREATER_THAN'') \<and>
      (operator_items ! nat i = ''<= (less than or equal)'' \<longrightarrow> m = ''LESS_THAN'') \<and>
      (operator_items ! nat i = ''= (equals)'' \<longrightarrow> m = ''EQUALS'') \<and>
      (operator_items ! nat i = ''!= (not equals)'' \<longrightarrow> m = ''NOT_EQUALS'') \<and>
      (operator_items ! nat i = ''> (greater than)'' \<longrightarrow> m = ''GREATER_THAN'') \<and>
      (operator_items ! nat i = ''< (less than)'' \<longrightarrow> m = ''LESS_THAN'') \<and>
      (operator_items ! nat i = ''between'' \<longrightarrow> m = ''BETWEEN'') \<and>
      0 \<le> i \<and> i \<le> 6"
      by (elim disjE conjE) (simp_all add: operator_items_def)
  qed
  have none: "scene_filter_duration None v2 oper = None"
    by (simp add: scene_filter_duration_def)
  show ?thesis
    using single between sent none
    by (simp add: operator_map_entries scene_filter_duration_entry duration_sent_of_criterion
        operator_items_def)
qed

theorem C3_duration_operator_mapping_witness:
  "duration_modifier_sent 3 ''600'' [] = Some ''GREATER_THAN'' \<and>
   duration_modifier_sent 5 ''10:30'' [] = Some ''LESS_THAN'' \<and>
   duration_criterion 6 ''600'' ''1:30:45'' = Return (600, Some 5445, ''BETWEEN'')"
proof -
  have a: "strip ''600'' \<noteq> [] \<and> parse_duration_input (strip ''600'') = Inr (Some 600)"
    by code_simp
  have b: "strip ''10:30'' \<noteq> [] \<and> parse_duration_input (strip ''10:30'') = Inr (Some 630)"
    by code_simp
  have c: "strip ''1:30:45'' \<noteq> [] \<and>
           parse_duration_input (strip ''1:30:45'') = Inr (Some 5445)"
    by code_simp
  have "duration_modifier_sent 3 ''600'' [] = Some ''GREATER_THAN''"
    using a C3_duration_operator_mapping
      [where ?t1.0 = "''600''" and ?v1.0 = 600 and ?t2.0 = "[]" and w = 0 and i = 3
         and oper = "[]" and m = "[]" and ?v2.0 = None]
    by simp
  moreover have "duration_modifier_sent 5 ''10:30'' [] = Some ''LESS_THAN''"
    using b C3_duration_operator_mapping
      [where ?t1.0 = "''10:30''" and ?v1.0 = 630 and ?t2.0 = "[]" and w = 0 and i = 5
         and oper = "[]" and m = "[]" and ?v2.0 = None]
    by simp
  moreover have "duration_criterion 6 ''600'' ''1:30:45'' = Return (600, Some 5445, ''BETWEEN'')"
    using a c C3_duration_operator_mapping
      [where ?t1.0 = "''600''" and ?v1.0 = 600 and ?t2.0 = "''1:30:45''" and w = 5445
         and i = 6 and oper = "[]" and m = "[]" and ?v2.0 = None]
    by simp
  ultimately show ?thesis
    by simp
qed

subsection \<open>File size filter\<close>

lemma filter_size_ok_filter:
  assumes "\<And>s. size_ok oper v1 v2 s = Inr (p s)"
  shows "filter_size_ok oper v1 v2 ss = Inr (filter p ss)"
  by (induction ss) (simp_all add: assms)

lemma size_ok_EQUALS:
  "size_ok ''EQUALS'' v1 v2 s =
     Inr (case meta_filesize s of None \<Rightarrow> False | Some fs \<Rightarrow> fs = v1)"
  by (simp add: size_ok_def split: option.splits)

lemma size_ok_NOT_EQUALS:
  "size_ok ''NOT_EQUALS'' v1 v2 s =
     Inr (case meta_filesize s of None \<Rightarrow> False | Some fs \<Rightarrow> fs \<noteq> v1)"
  by (simp add: size_ok_def split: option.splits)

lemma size_ok_GREATER_THAN:
  "size_ok ''GREATER_THAN'' v1 v2 s =
     Inr (case meta_filesize s of None \<Rightarrow> False | Some fs \<Rightarrow> v1 < fs)"
  by (simp add: size_ok_def split: option.splits)

lemma size_ok_LESS_THAN:
  "size_ok ''LESS_THAN'' v1 v2 s =
     Inr (case meta_filesize s of None \<Rightarrow> False | Some fs \<Rightarrow> fs < v1)"
  by (simp add: size_ok_def split: option.splits)

lemma size_ok_between:
  "size_ok ''BETWEEN'' v1 (Some w) s =
     Inr (case meta_filesize s of None \<Rightarrow> False | Some fs \<Rightarrow> v1 \<le> fs \<and> fs \<le> w)"
  by (auto simp: size_ok_def split: option.splits)

lemma filesize_filter_single:
  assumes "strip t1 \<noteq> []" and "parse_filesize_input (strip t1) u1 = Inr (Some v1)"
  shows "filesize_filter 0 t1 u1 t2 u2 scs =
        Return (filter (\<lambda>s. case meta_filesize s of None \<Rightarrow> False | Some fs \<Rightarrow> fs = v1) scs)"
    and "filesize_filter 1 t1 u1 t2 u2 scs =
        Return (filter (\<lambda>s. case meta_filesize s of None \<Rightarrow> False | Some fs \<Rightarrow> fs \<noteq> v1) scs)"
    and "filesize_filter 2 t1 u1 t2 u2 scs =
        Return (filter (\<lambda>s. case meta_filesize s of None \<Rightarrow> False | Some fs \<Rightarrow> v1 < fs) scs)"
    and "filesize_filter 3 t1 u1 t2 u2 scs =
        Return (filter (\<lambda>s. case meta_filesize s of None \<Rightarrow> False | Some fs \<Rightarrow> v1 < fs) scs)"
    and "filesize_filter 4 t1 u1 t2 u2 scs =
        Return (filter (\<lambda>s. case meta_filesize s of None \<Rightarrow> False | Some fs \<Rightarrow> fs < v1) scs)"
    and "filesize_filter 5 t1 u1 t2 u2 scs =
        Return (filter (\<lambda>s. case meta_filesize s of None \<Rightarrow> False | Some fs \<Rightarrow> fs < v1) scs)"
  using assms
  by (simp_all add: filesize_filter_def parse_filesize_field_def Let_def operator_map_def
      filter_size_ok_filter [OF size_ok_EQUALS] filter_size_ok_filter [OF size_ok_NOT_EQUALS]
      filter_size_ok_filter [OF size_ok_GREATER_THAN] filter_size_ok_filter [OF size_ok_LESS_THAN])

lemma filesize_filter_between:
  assumes "strip t1 \<noteq> []" and "parse_filesize_input (strip t1) u1 = Inr (Some v1)"
    and "strip t2 \<noteq> []" and "parse_filesize_input (strip t2) u2 = Inr (Some w)"
  shows "filesize_filter 6 t1 u1 t2 u2 scs =
     Return (filter (\<lambda>s. case meta_filesize s of
                           None \<Rightarrow> False
                         | Some fs \<Rightarrow> v1 \<le> fs \<and> fs \<le> w) scs)"
  using assms
  by (simp add: filesize_filter_def parse_filesize_field_def Let_def operator_map_def
      filter_size_ok_filter [where p = "\<lambda>s. case meta_filesize s of
                           None \<Rightarrow> False
                         | Some fs \<Rightarrow> v1 \<le> fs \<and> fs \<le> w", OF size_ok_between])

text \<open>
  C1, as the code has it. With the file size filter active the page size handed to the
  server is 10000. The operator map of the client-side filter has exactly the seven
  entries of the source, with greater-or-equal (index 3) mapped to \<open>GREATER_THAN\<close> and
  less-or-equal (index 5) to \<open>LESS_THAN\<close>. The predicate rejects a scene with no size;
  for a scene of size \<open>fs\<close> it decides \<open>EQUALS\<close> as \<open>fs = v1\<close>, \<open>NOT_EQUALS\<close> as
  \<open>fs \<noteq> v1\<close>, \<open>GREATER_THAN\<close> as \<open>fs > v1\<close>, \<open>LESS_THAN\<close> as \<open>fs < v1\<close>, whatever the
  second bound is, and \<open>BETWEEN\<close> as \<open>v1 \<le> fs \<le> w\<close>. So a scene whose size equals the
  threshold is rejected under index 3 and under index 5. The filter as a whole, given
  a magnitude that parses, keeps exactly the fetched scenes that the predicate accepts,
  in their order.
\<close>

theorem C1_filesize_filter:
  "search_per_page True n = 10000 \<and>
   search_per_page False n = n \<and>
   (map_of operator_map i = Some oper \<longleftrightarrow>
      i = 0 \<and> oper = ''EQUALS'' \<or> i = 1 \<and> oper = ''NOT_EQUALS'' \<or>
      i = 2 \<and> oper = ''GREATER_THAN'' \<or> i = 3 \<and> oper = ''GREATER_THAN'' \<or>
      i = 4 \<and> oper = ''LESS_THAN'' \<or> i = 5 \<and> oper = ''LESS_THAN'' \<or>
      i = 6 \<and> oper = ''BETWEEN'') \<and>
   (meta_filesize s = None \<longrightarrow> size_ok oper v1 v2 s = Inr False) \<and>
   (meta_filesize s = Some fs \<longrightarrow>
      size_ok ''EQUALS'' v1 v2 s = Inr (fs = v1) \<and>
      size_ok ''NOT_EQUALS'' v1 v2 s = Inr (fs \<noteq> v1) \<and>
      size_ok ''GREATER_THAN'' v1 v2 s = Inr (v1 < fs) \<and>
      size_ok ''LESS_THAN'' v1 v2 s = Inr (fs < v1) \<and>
      size_ok ''BETWEEN'' v1 (Some w) s = Inr (v1 \<le> fs \<and> fs \<le> w)) \<and>
   (meta_filesize s = Some v1 \<longrightarrow>
      size_ok (the (map_of operator_map 3)) v1 v2 s = Inr False \<and>
      size_ok (the (map_of operator_map 5)) v1 v2 s = Inr False \<and>
      size_ok (the (map_of operator_map 0)) v1 v2 s = Inr True) \<and>
   (strip t1 \<noteq> [] \<and> parse_filesize_input (strip t1) u1 = Inr (Some v1) \<longrightarrow>
      filesize_filter 0 t1 u1 t2 u2 scs =
        Return (filter (\<lambda>s. case meta_filesize s of None \<Rightarrow> False | Some fs \<Rightarrow> fs = v1) scs) \<and>
      filesize_filter 1 t1 u1 t2 u2 scs =
        Return (filter (\<lambda>s. case meta_filesize s of None \<Rightarrow> False | Some fs \<Rightarrow> fs \<noteq> v1) scs) \<and>
      filesize_filter 2 t1 u1 t2 u2 scs =
        Return (filter (\<lambda>s. case meta_filesize s of None \<Rightarrow> False | Some fs \<Rightarrow> v1 < fs) scs) \<and>
      filesize_filter 3 t1 u1 t2 u2 scs =
        Return (filter (\<lambda>s. case meta_filesize s of None \<Rightarrow> False | Some fs \<Rightarrow> v1 < fs) scs) \<and>
      filesize_filter 4 t1 u1 t2 u2 scs =
        Return (filter (\<lambda>s. case meta_filesize s of None \<Rightarrow> False | Some fs \<Rightarrow> fs < v1) scs) \<and>
      filesize_filter 5 t1 u1 t2 u2 scs =
        Return (filter (\<lambda>s. case meta_filesize s of None \<Rightarrow> False | Some fs \<Rightarrow> fs < v1) scs) \<and>
      (strip t2 \<noteq> [] \<and> parse_filesize_input (strip t2) u2 = Inr (Some w) \<longrightarrow>
         filesize_filter 6 t1 u1 t2 u2 scs =
           Return (filter (\<lambda>s. case meta_filesize s of
                                 None \<Rightarrow> False
                               | Some fs \<Rightarrow> v1 \<le> fs \<and> fs \<le> w) scs)))"
proof -
  have pred: "(meta_filesize s = None \<longrightarrow> size_ok oper v1 v2 s = Inr False) \<and>
   (meta_filesize s = Some fs \<longrightarrow>
      size_ok ''EQUALS'' v1 v2 s = Inr (fs = v1) \<and>
      size_ok ''NOT_EQUALS'' v1 v2 s = Inr (fs \<noteq> v1) \<and>
      size_ok ''GREATER_THAN'' v1 v2 s = Inr (v1 < fs) \<and>
      size_ok ''LESS_THAN'' v1 v2 s = Inr (fs < v1) \<and>
      size_ok ''BETWEEN'' v1 (Some w) s = Inr (v1 \<le> fs \<and> fs \<le> w))"
    by (auto simp: size_ok_def)
  have m3: "the (map_of operator_map 3) = ''GREATER_THAN''"
    and m5: "the (map_of operator_map 5) = ''LESS_THAN''"
    and m0: "the (map_of operator_map 0) = ''EQUALS''"
    by (simp_all add: operator_map_def)
  have thr: "meta_filesize s = Some v1 \<longrightarrow>
      size_ok (the (map_of operator_map 3)) v1 v2 s = Inr False \<and>
      size_ok (the (map_of operator_map 5)) v1 v2 s = Inr False \<and>
      size_ok (the (map_of operator_map 0)) v1 v2 s = Inr True"
    unfolding m3 m5 m0 by (simp add: size_ok_def)
  have whole: "strip t1 \<noteq> [] \<and> parse_filesize_input (strip t1) u1 = Inr (Some v1) \<longrightarrow>
      filesize_filter 0 t1 u1 t2 u2 scs =
        Return (filter (\<lambda>s. case meta_filesize s of None \<Rightarrow> False | Some fs \<Rightarrow> fs = v1) scs) \<and>
      filesize_filter 1 t1 u1 t2 u2 scs =
        Return (filter (\<lambda>s. case meta_filesize s of None \<Rightarrow> False | Some fs \<Rightarrow> fs \<noteq> v1) scs) \<and>
      filesize_filter 2 t1 u1 t2 u2 scs =
        Return (filter (\<lambda>s. case meta_filesize s of None \<Rightarrow> False | Some fs \<Rightarrow> v1 < fs) scs) \<and>
      filesize_filter 3 t1 u1 t2 u2 scs =
        Return (filter (\<lambda>s. case meta_filesize s of None \<Rightarrow> False | Some fs \<Rightarrow> v1 < fs) scs) \<and>
      filesize_filter 4 t1 u1 t2 u2 scs =
        Return (filter (\<lambda>s. case meta_filesize s of None \<Rightarrow> False | Some fs \<Rightarrow> fs < v1) scs) \<and>
      filesize_filter 5 t1 u1 t2 u2 scs =
        Return (filter (\<lambda>s. case meta_filesize s of None \<Rightarrow> False | Some fs \<Rightarrow> fs < v1) scs)"
    by (simp add: filesize_filter_single)
  have btw: "strip t1 \<noteq> [] \<and> parse_filesize_input (strip t1) u1 = Inr (Some v1) \<longrightarrow>
      strip t2 \<noteq> [] \<and> parse_filesize_input (strip t2) u2 = Inr (Some w) \<longrightarrow>
         filesize_filter 6 t1 u1 t2 u2 scs =
           Return (filter (\<lambda>s. case meta_filesize s of
                                 None \<Rightarrow> False
                               | Some fs \<Rightarrow> v1 \<le> fs \<and> fs \<le> w) scs)"
    by (simp add: filesize_filter_between)
  have pp: "search_per_page True n = 10000 \<and> search_per_page False n = n"
    by (simp add: search_per_page_def)
  show ?thesis
    using pred thr whole btw pp operator_map_entries [of i oper] by blast
qed

theorem C1_filesize_filter_witness:
  "filesize_filter 3 ''100'' ''B'' [] ''B''
     [(bare_scene ''7'')\<lparr>meta_filesize := Some 100\<rparr>,
      (bare_scene ''8'')\<lparr>meta_filesize := Some 101\<rparr>]
   = Return [(bare_scene ''8'')\<lparr>meta_filesize := Some 101\<rparr>] \<and>
   size_ok ''LESS_THAN'' 100 None ((bare_scene ''7'')\<lparr>meta_filesize := Some 100\<rparr>) = Inr False"
proof -
  have h: "strip ''100'' \<noteq> [] \<and> parse_filesize_input (strip ''100'') ''B'' = Inr (Some 100)"
    by code_simp
  show ?thesis
    using h C1_filesize_filter
      [where ?t1.0 = "''100''" and ?u1.0 = "''B''" and ?v1.0 = 100 and ?t2.0 = "[]"
         and ?u2.0 = "''B''" and ?v2.0 = None and fs = 100 and w = 0 and n = 0 and i = 3
         and oper = "[]"
         and s = "(bare_scene ''7'')\<lparr>meta_filesize := Some 100\<rparr>"
         and scs = "[(bare_scene ''7'')\<lparr>meta_filesize := Some 100\<rparr>,
                     (bare_scene ''8'')\<lparr>meta_filesize := Some 101\<rparr>]"]
    by (simp add: bare_scene_def)
qed

text \<open>
  The claim as stated fails: with \<open>>= (greater than or equal)\<close> chosen and 100 B
  entered, a fetched scene of exactly 100 bytes is filtered out.
\<close>

theorem C1_counterexample:
  "operator_items ! 3 = ''>= (greater than or equal)'' \<and>
   filesize_filter 3 ''100'' ''B'' [] ''B''
     [(bare_scene ''7'')\<lparr>meta_filesize := Some 100\<rparr>] = Return []"
  by code_simp

subsection \<open>Bulk mutation workers\<close>

lemma tally_counted: "records_counted (tally oc sm) = records_counted sm + 1"
  by (cases oc) (simp_all add: tally_def records_counted_def)

lemma bulk_loop_counted:
  "records_counted (fst (bulk_loop pass ss (sm, sent, c))) = records_counted sm + length ss"
proof (induction ss arbitrary: sm sent c)
  case Nil
  show ?case by simp
next
  case (Cons s ss)
  obtain oc reqs c' where p: "pass s c = (oc, reqs, c')"
    by (cases "pass s c") auto
  show ?case
    by (simp add: p Cons.IH tally_counted)
qed

text \<open>
  C10. For each of the four workers the counts of the summary add up to the number of
  input records, and one pass adds one to exactly one count. (The rename worker never
  counts a record as already satisfied; its summary has no such entry.)
\<close>

theorem C10_summary_partitions_input:
  "records_counted (fst (ApplyTagWorker_run call scs tag_id dry_run c)) = length scs \<and>
   records_counted (fst (RenameSceneWorker_run call scs new_title dry_run c)) = length scs \<and>
   records_counted (fst (AssignPerformersWorker_run call scs performer_ids dry_run c))
     = length scs \<and>
   records_counted (fst (AssignStudioWorker_run call_graphql scs studio_id dry_run c'))
     = length scs \<and>
   records_counted (tally oc sm) = records_counted sm + 1 \<and>
   already (fst (RenameSceneWorker_run call scs new_title dry_run c)) = 0"
proof -
  have "already (fst (bulk_loop (rename_pass call new_title dry_run) ss (sm, sent, d)))
        = already sm" for ss sm sent d
  proof (induction ss arbitrary: sm sent d)
    case Nil
    show ?case by simp
  next
    case (Cons s ss)
    obtain o1 r1 d1 where p: "rename_pass call new_title dry_run s d = (o1, r1, d1)"
      by (cases "rename_pass call new_title dry_run s d") auto
    then have "o1 \<noteq> Already"
      by (auto simp: rename_pass_def mutate_def classify_def
          split: if_splits prod.splits call_result.splits sum.splits bool.splits)
    then have "already (tally o1 sm) = already sm"
      by (cases o1) (simp_all add: tally_def)
    then show ?case
      by (simp add: p Cons.IH)
  qed
  moreover have "records_counted no_counts = 0" and "already no_counts = 0"
    by (simp_all add: records_counted_def no_counts_def)
  ultimately show ?thesis
    by (simp add: ApplyTagWorker_run_def RenameSceneWorker_run_def
        AssignPerformersWorker_run_def AssignStudioWorker_run_def bulk_loop_counted
        tally_counted)
qed

text \<open>
  C4. A pass of the tag worker: when the tag id is among the record's tag ids, the
  outcome is already-satisfied, no request is sent and the client is untouched;
  otherwise under dry-run the outcome is updated, again with no request; otherwise
  exactly one request is sent, for this record, whose tag ids are the existing ids in
  their order followed by the new id, which occurs in it once.
\<close>

theorem C4_tag_apply_pass:
  "(tag_id \<in> set (map ref_id (tags s)) \<longrightarrow>
      apply_tag_pass call tag_id dry_run s c = (Already, [], c)) \<and>
   (tag_id \<notin> set (map ref_id (tags s)) \<and> dry_run \<longrightarrow>
      apply_tag_pass call tag_id dry_run s c = (Updated, [], c)) \<and>
   (tag_id \<notin> set (map ref_id (tags s)) \<and> \<not> dry_run \<longrightarrow>
      fst (snd (apply_tag_pass call tag_id dry_run s c)) =
        [\<lparr>input_id = scene_id s,
          input_change = Tag_ids (map ref_id (tags s) @ [tag_id])\<rparr>] \<and>
      count_list (map ref_id (tags s) @ [tag_id]) tag_id = 1)"
  by (auto simp: apply_tag_pass_def mutate_def Let_def count_list_0_iff
      split: prod.splits call_result.splits sum.splits)

theorem C4_tag_apply_pass_witness:
  "apply_tag_pass (always \<lparr>r_data = Null, r_errors = Absent, r_dumps = []\<rparr>) ''9'' False
     ((bare_scene ''7'')\<lparr>tags := [\<lparr>ref_id = ''9'', ref_name = ''x''\<rparr>]\<rparr>) ()
   = (Already, [], ())"
  using C4_tag_apply_pass [of "''9''"
      "(bare_scene ''7'')\<lparr>tags := [\<lparr>ref_id = ''9'', ref_name = ''x''\<rparr>]\<rparr>"
      "always \<lparr>r_data = Null, r_errors = Absent, r_dumps = []\<rparr>" False "()"]
  by (simp add: bare_scene_def)

text \<open>
  C2, at inputs where the code departs from it. A response whose \<open>data\<close> is null and
  whose error says \<open>FOREIGN KEY constraint failed\<close> is counted as failed by the tag,
  rename and performer workers (reading the null raises first); without the \<open>data\<close>
  member the same error is counted as skipped. The studio worker counts every
  unsuccessful call as failed, and with the application's client every call.
\<close>

theorem C2_foreign_key_counted_failed:
  "fst (apply_tag_pass
          (always \<lparr>r_data = Null,
                   r_errors = Present [\<lparr>e_message = Present ''FOREIGN KEY constraint failed'',
                                        e_str = []\<rparr>],
                   r_dumps = []\<rparr>)
          ''9'' False (bare_scene ''7'') ()) = Failed \<and>
   fst (apply_tag_pass
          (always \<lparr>r_data = Absent,
                   r_errors = Present [\<lparr>e_message = Present ''FOREIGN KEY constraint failed'',
                                        e_str = []\<rparr>],
                   r_dumps = []\<rparr>)
          ''9'' False (bare_scene ''7'') ()) = Skipped_deleted \<and>
   fst (assign_studio_pass (always GNone) ''5'' False (bare_scene ''7'') ()) = Failed \<and>
   fst (assign_studio_pass GraphQLClient_call_graphql ''5'' False (bare_scene ''7'') ())
     = Failed"
  by code_simp

lemma assign_studio_never_skips:
  "scene_id s \<noteq> [] \<Longrightarrow>
   fst (assign_studio_pass call_graphql studio_id dry_run s c) \<noteq> Skipped_deleted"
  by (auto simp: assign_studio_pass_def assign_studio_to_scene_def
      split: prod.splits call_result.splits sum.splits)

theorem C10_summary_partitions_input_witness:
  "records_counted (fst (ApplyTagWorker_run
       (always \<lparr>r_data = Absent, r_errors = Absent, r_dumps = []\<rparr>)
       [bare_scene ''7'', bare_scene ''8''] ''9'' True ())) = 2"
  using C10_summary_partitions_input
    [of "always \<lparr>r_data = Absent, r_errors = Absent, r_dumps = []\<rparr>"
        "[bare_scene ''7'', bare_scene ''8'']" "''9''" True "()", THEN conjunct1]
  by (simp add: eval_nat_numeral)

subsection \<open>Selection and sort table\<close>

lemma select_loop_length: "length (fst (select_loop id_set ss cs)) = length cs"
  by (induction id_set ss cs rule: select_loop.induct) (auto split: prod.splits)

text \<open>
  C7. A new table and a table whose records were replaced have one selection bit per
  record, all false; and every other operation of the table (toggling a row through
  \<open>setData\<close>, select-all, select-by-ids, sorting, changing the visible columns) keeps
  the number of selection bits equal to the number of records.
\<close>

theorem C7_selection_vector_aligned:
  "aligned (init ss) \<and> aligned (setScenes ss t) \<and>
   scenes (setScenes ss t) = ss \<and>
   checked (setScenes ss t) = replicate (length ss) False \<and>
   (aligned t \<longrightarrow>
      aligned (select_all val t) \<and>
      aligned (fst (select_by_ids id_set t)) \<and>
      aligned (sort_table column order t) \<and>
      aligned (set_visible_columns visible_indices t) \<and>
      (\<forall>ok t'. setData index is_checked check_role t = Inr (ok, t') \<longrightarrow> aligned t'))"
proof -
  have "length (checked (fst (select_by_ids id_set t))) = length (checked t)"
    using select_loop_length [of id_set "scenes t" "checked t"]
    by (auto simp: select_by_ids_def split: prod.splits)
  moreover have "scenes (fst (select_by_ids id_set t)) = scenes t"
    by (auto simp: select_by_ids_def split: prod.splits)
  ultimately have sel: "aligned t \<Longrightarrow> aligned (fst (select_by_ids id_set t))"
    by (simp add: aligned_def)
  have srt: "aligned t \<Longrightarrow> aligned (sort_table column order t)"
    by (simp add: aligned_def sort_table_def Let_def)
  have sd: "aligned t \<Longrightarrow> setData index is_checked check_role t = Inr (ok, t') \<Longrightarrow> aligned t'"
    for ok t'
    by (auto simp: aligned_def setData_def split: option.splits prod.splits if_splits)
  show ?thesis
    using sel srt sd
    by (auto simp: aligned_def init_def setScenes_def select_all_def set_visible_columns_def)
qed

theorem C7_selection_vector_aligned_witness:
  "aligned (select_all True (setScenes [bare_scene ''7'', bare_scene ''8''] (init []))) \<and>
   checked (setScenes [bare_scene ''7'', bare_scene ''8''] (init [])) = [False, False]"
proof -
  have a: "aligned (setScenes [bare_scene ''7'', bare_scene ''8''] (init []))"
    using C7_selection_vector_aligned
      [where ss = "[bare_scene ''7'', bare_scene ''8'']" and t = "init []"]
    by simp
  show ?thesis
    using a C7_selection_vector_aligned
      [where ss = "[bare_scene ''7'', bare_scene ''8'']"
         and t = "setScenes [bare_scene ''7'', bare_scene ''8''] (init [])"
         and val = True]
    by (simp add: setScenes_def)
qed

lemma mset_insort_by: "mset (insort_by lt x ys) = add_mset x (mset ys)"
  by (induction ys) auto

lemma mset_stable_sort: "mset (stable_sort lt xs) = mset xs"
  by (induction xs) (auto simp: stable_sort_def mset_insort_by)

lemma mset_py_sort: "mset (py_sort key reverse xs) = mset xs"
  by (simp add: py_sort_def Let_def mset_stable_sort)

lemma zip_index_pairs:
  "map (\<lambda>item. (fst item, fst (snd item))) (zip_index i xs cs) = zip xs cs"
  by (induction i xs cs rule: zip_index.induct) auto

lemma sorted_pairs:
  "mset (zip (map fst (py_sort key reverse (zip_index 0 xs cs)))
             (map (\<lambda>item. fst (snd item)) (py_sort key reverse (zip_index 0 xs cs))))
   = mset (zip xs cs)"
proof -
  let ?o = "py_sort key reverse (zip_index 0 xs cs)"
  let ?h = "\<lambda>item :: 'a \<times> 'b \<times> nat. (fst item, fst (snd item))"
  have "zip (map fst ?o) (map (\<lambda>item. fst (snd item)) ?o) = map ?h ?o"
    by (simp add: zip_map_map zip_same_conv_map)
  then have "mset (zip (map fst ?o) (map (\<lambda>item. fst (snd item)) ?o))
             = image_mset ?h (mset ?o)"
    by simp
  also have "\<dots> = image_mset ?h (mset (zip_index 0 xs cs))"
    by (simp add: mset_py_sort)
  also have "\<dots> = mset (map ?h (zip_index 0 xs cs))"
    by simp
  finally show ?thesis
    by (simp only: zip_index_pairs)
qed

lemma selection_sort: "selection (sort_table column order t) = selection t"
  by (simp add: selection_def sort_table_def Let_def sorted_pairs)

lemma selection_sorts: "selection (sorts reqs t) = selection t"
proof (induction reqs arbitrary: t)
  case Nil
  show ?case by (simp add: sorts_def)
next
  case (Cons r reqs)
  obtain column order where r: "r = (column, order)"
    by (cases r) auto
  have "sorts (r # reqs) t = sorts reqs (sort_table column order t)"
    by (simp add: sorts_def r)
  then show ?case
    by (simp add: Cons.IH selection_sort)
qed

lemma selection_scenes: "aligned t \<Longrightarrow> image_mset fst (selection t) = mset (scenes t)"
proof -
  assume "aligned t"
  then have "map fst (zip (scenes t) (checked t)) = scenes t"
    by (simp add: aligned_def)
  then have "mset (map fst (zip (scenes t) (checked t))) = mset (scenes t)"
    by simp
  then show ?thesis
    by (simp add: selection_def)
qed

lemma selected_mset:
  "mset (get_selected_scenes t) = image_mset fst (filter_mset snd (selection t))"
  by (simp add: get_selected_scenes_def selection_def)

text \<open>
  C6. Sorting moves each selection bit with its record: the records paired with their
  bits are the same, each pair as often as before, after one sort, after sorting by a
  column ascending and then descending, and after any sequence of sorts; so the
  selected records stay the same, and on a table with one bit per record no record is
  lost. A sort request on the selector column (column 0 of the field list) changes
  nothing at all.
\<close>

theorem C6_sort_carries_selection:
  "selection (sort_table column order t) = selection t \<and>
   selection (sort_table column DescendingOrder (sort_table column AscendingOrder t)) = selection t \<and>
   selection (sorts reqs t) = selection t \<and>
   mset (get_selected_scenes (sorts reqs t)) = mset (get_selected_scenes t) \<and>
   (aligned t \<longrightarrow> aligned (sorts reqs t) \<and> mset (scenes (sorts reqs t)) = mset (scenes t)) \<and>
   (0 \<le> column \<and> column < int (length (visible_columns t)) \<and>
    visible_columns t ! nat column = 0 \<longrightarrow> sort_table column order t = t)"
proof -
  have al: "aligned u \<Longrightarrow> aligned (sorts rs u)" for rs u
  proof (induction rs arbitrary: u)
    case Nil
    then show ?case by (simp add: sorts_def)
  next
    case (Cons r rs)
    obtain c1 o1 where r: "r = (c1, o1)"
      by (cases r) auto
    have s: "sorts (r # rs) u = sorts rs (sort_table c1 o1 u)"
      by (simp add: sorts_def r)
    have "aligned (sort_table c1 o1 u)"
      using Cons.prems by (simp add: aligned_def sort_table_def Let_def)
    then show ?case
      by (simp add: s Cons.IH)
  qed
  have sc: "aligned t \<Longrightarrow> mset (scenes (sorts reqs t)) = mset (scenes t)"
  proof -
    assume a: "aligned t"
    have "mset (scenes (sorts reqs t)) = image_mset fst (selection (sorts reqs t))"
      using selection_scenes [OF al [OF a]] by simp
    also have "\<dots> = mset (scenes t)"
      by (simp add: selection_sorts selection_scenes [OF a])
    finally show ?thesis .
  qed
  show ?thesis
    using al sc
    by (simp add: selection_sort selection_sorts selected_mset) (simp add: sort_table_def)
qed

theorem C6_sort_carries_selection_witness:
  "selection (sorts [(1, AscendingOrder), (1, DescendingOrder)]
                (select_all True (init [bare_scene ''7'', bare_scene ''8''])))
   = selection (select_all True (init [bare_scene ''7'', bare_scene ''8''])) \<and>
   sort_table 0 DescendingOrder (init [bare_scene ''7'']) = init [bare_scene ''7'']"
  using C6_sort_carries_selection
    [of 0 DescendingOrder "init [bare_scene ''7'']"
        "[(1, AscendingOrder), (1, DescendingOrder)]"]
    C6_sort_carries_selection
    [of 1 AscendingOrder "select_all True (init [bare_scene ''7'', bare_scene ''8''])"
        "[(1, AscendingOrder), (1, DescendingOrder)]"]
  by (simp add: init_def DEFAULT_VISIBLE_def)

subsection \<open>Scene record normalizer\<close>















end
